theory Spec2Isabelle
  imports Complex_Main "HOL-Library.Word" "HOL-Library.List_Lexorder"
begin

section \<open>JavaScript strings\<close>

text \<open>
  A JavaScript string is a sequence of UTF-16 code units. String literals of the source
  are written as Isabelle strings and converted with \<open>js\<close>.
\<close>

type_synonym jsstring = "16 word list"

definition js :: "string \<Rightarrow> jsstring" where
  "js = map of_char"

text \<open>
  \<open>String.prototype.trim\<close> removes the ECMAScript WhiteSpace and LineTerminator code
  points from both ends; all of them are single code units.
\<close>

definition isWhiteSpace :: "16 word \<Rightarrow> bool" where
  "isWhiteSpace c \<longleftrightarrow>
     c \<in> {0x09, 0x0A, 0x0B, 0x0C, 0x0D, 0x20, 0xA0, 0x1680,
          0x2028, 0x2029, 0x202F, 0x205F, 0x3000, 0xFEFF}
     \<or> (0x2000 \<le> c \<and> c \<le> 0x200A)"

definition trim :: "jsstring \<Rightarrow> jsstring" where
  "trim s = rev (dropWhile isWhiteSpace (rev (dropWhile isWhiteSpace s)))"

text \<open>
  \<open>a || b\<close> on an optional string: \<open>undefined\<close> and the empty string are falsy.
\<close>

definition or_default :: "jsstring option \<Rightarrow> jsstring \<Rightarrow> jsstring" where
  "or_default v d = (case v of None \<Rightarrow> d | Some x \<Rightarrow> if x = [] then d else x)"

text \<open>
  \<open>escapeHtml\<close> assigns the text to \<open>textContent\<close> of a fresh element and reads
  \<open>innerHTML\<close> back: the HTML serialisation of one text node, which replaces
  \<open>&\<close>, \<open><\<close>, \<open>>\<close> and the no-break space by their named character references.
\<close>

fun escapeHtml :: "jsstring \<Rightarrow> jsstring" where
  "escapeHtml [] = []"
| "escapeHtml (c # cs) =
     (if c = 0x26 then js ''&amp;'' @ escapeHtml cs
      else if c = 0x3C then js ''&lt;'' @ escapeHtml cs
      else if c = 0x3E then js ''&gt;'' @ escapeHtml cs
      else if c = 0xA0 then js ''&nbsp;'' @ escapeHtml cs
      else c # escapeHtml cs)"

text \<open>
  Markup that holds no raw \<open><\<close> or \<open>>\<close> and in which every \<open>&\<close> starts one of the
  four character references: an HTML parser reads it back as text only.
\<close>

fun text_only :: "jsstring \<Rightarrow> bool" where
  "text_only [] = True"
| "text_only (c # cs) =
     (if c = 0x3C \<or> c = 0x3E then False
      else if c = 0x26 then
        (take 4 cs = js ''amp;'' \<or> take 3 cs = js ''lt;'' \<or> take 3 cs = js ''gt;''
           \<or> take 5 cs = js ''nbsp;'') \<and> text_only cs
      else text_only cs)"

section \<open>Chat: the page and its state\<close>

text \<open>
  The outcome of \<open>fetch\<close> followed by \<open>response.json()\<close>: the request is rejected, the
  body is not JSON, the body is JSON \<open>null\<close> (reading a field of it throws), or an object.
\<close>

datatype 'a fetched = Rejected | NotJson | JsonNull | JsonObj 'a

record send_data =
  success :: bool
  error :: "jsstring option"

record message =
  msg_text :: jsstring
  from_student :: bool
  timestamp :: jsstring

record poll_data =
  messages :: "message list option"

text \<open>
  A network request, by its endpoint and payload: \<open>POST /api/send_message\<close> with
  \<open>teacher_id\<close> and \<open>message\<close>, or \<open>GET /api/poll_messages/<teacherId>\<close> with the
  optional \<open>since\<close> query parameter (absent when \<open>since\<close> is the empty string). The
  parameter is kept as the string itself; its percent-encoding by \<open>encodeURIComponent\<close>
  is the browser's, and timestamps are taken to be well-formed UTF-16, on which it returns.
\<close>

datatype request =
  SendMessage jsstring jsstring
| PollMessages jsstring "jsstring option"

text \<open>
  \<open>formatTimeSGT\<close> formats the given timestamp, or the current time when the timestamp is
  falsy. The model keeps which instant is formatted; the clock and the \<open>Date\<close> arithmetic
  are the browser's.
\<close>

datatype instant = Now | At jsstring

definition formatTimeSGT :: "jsstring option \<Rightarrow> instant" where
  "formatTimeSGT ts = (case ts of None \<Rightarrow> Now | Some t \<Rightarrow> if t = [] then Now else At t)"

text \<open>
  One child of \<open>#messages-container\<close> as \<open>addMessage\<close> builds it: its class name, the
  markup inside the \<open>message-content\<close> div and the time shown in the \<open>message-time\<close> div.
\<close>

record bubble =
  className :: string
  message_content :: jsstring
  message_time :: instant

record toast =
  toast_title :: jsstring
  toast_body :: jsstring
  toast_class :: "string list"

text \<open>
  The closure of one \<open>startPolling\<close> call: its \<open>teacherId\<close>, its cursor \<open>since\<close>,
  whether its interval is still registered, and the interval's delay in milliseconds.
\<close>

record poller =
  teacher :: jsstring
  since :: jsstring
  active :: bool
  delay :: nat

text \<open>
  The page: the elements the chat code looks up (\<open>None\<close> or \<open>False\<close> when the element is
  missing), the toasts shown, the network requests issued, the closures of
  \<open>startPolling\<close> indexed by timer id, the global \<open>pollInterval\<close> handle, whether
  \<open>window.onNewMessageReceived\<close> is set and the calls it received, the number of
  \<open>console.error\<close> lines, and the \<open>teacherId\<close> of each registered submit listener.
  The toast element stands for itself and its title and body children. Scrolling of the
  container and \<open>preventDefault\<close> have no part in the state.
\<close>

record page =
  message_form :: bool
  container :: "bubble list option"
  message_input :: "jsstring option"
  empty_state :: bool
  toast_el :: bool
  toasts :: "toast list"
  requests :: "request list"
  pollers :: "poller list"
  pollInterval :: "nat option"
  onNewMessageReceived :: bool
  notified :: "(jsstring \<times> jsstring) list"
  console_errors :: nat
  submit_listeners :: "jsstring list"

section \<open>Chat: operations\<close>

definition showToast :: "jsstring \<Rightarrow> jsstring \<Rightarrow> string \<Rightarrow> page \<Rightarrow> page" where
  "showToast title msg ty s =
     (if \<not> toast_el s then s
      else s\<lparr>toasts := toasts s @
        [\<lparr>toast_title = title, toast_body = msg,
          toast_class = ''toast'' #
            (if ty = ''success'' then [''bg-success'', ''text-white'']
             else if ty = ''danger'' \<or> ty = ''error'' then [''bg-danger'', ''text-white'']
             else if ty = ''warning'' then [''bg-warning'']
             else [])\<rparr>]\<rparr>)"

definition addMessage :: "jsstring \<Rightarrow> bool \<Rightarrow> jsstring option \<Rightarrow> page \<Rightarrow> page" where
  "addMessage txt isSent ts s =
     (case container s of
        None \<Rightarrow> s
      | Some bs \<Rightarrow>
          s\<lparr>container := Some (bs @
            [\<lparr>className = (if isSent then ''message sent'' else ''message received''),
              message_content = escapeHtml txt,
              message_time = formatTimeSGT ts\<rparr>])\<rparr>)"

text \<open>
  The submit listener up to its first \<open>await\<close>: it reads and trims the input, returns on
  an empty message and otherwise issues the request. The second component is the message
  the continuation holds (\<open>None\<close> when the listener has returned, or has thrown because
  the input element is missing).
\<close>

definition submit_request :: "jsstring \<Rightarrow> page \<Rightarrow> page \<times> jsstring option" where
  "submit_request teacherId s =
     (case message_input s of
        None \<Rightarrow> (s, None)
      | Some v \<Rightarrow>
          (let message = trim v in
           if message = [] then (s, None)
           else (s\<lparr>requests := requests s @ [SendMessage teacherId message]\<rparr>, Some message)))"

text \<open>The rest of the submit listener, once the request has settled.\<close>

definition submit_response :: "jsstring \<Rightarrow> send_data fetched \<Rightarrow> page \<Rightarrow> page" where
  "submit_response message resp s =
     (case resp of
        JsonObj d \<Rightarrow>
          (if success d then
             (addMessage message True None s)\<lparr>message_input := Some [], empty_state := False\<rparr>
           else showToast (js ''Error'') (or_default (error d) (js ''Failed to send message''))
                  ''danger'' s)
      | _ \<Rightarrow> showToast (js ''Error'') (js ''Failed to send message'') ''danger'' s)"

definition onSubmit :: "jsstring \<Rightarrow> send_data fetched \<Rightarrow> page \<Rightarrow> page" where
  "onSubmit teacherId resp s =
     (case submit_request teacherId s of
        (s', None) \<Rightarrow> s'
      | (s', Some message) \<Rightarrow> submit_response message resp s')"

text \<open>
  \<open>startPolling\<close> creates a closure with its own \<open>since\<close>, registers an interval of
  3000 ms for it and stores the timer id in \<open>pollInterval\<close> (the id is the closure's
  index; browser timer ids are positive, so the handle is truthy exactly when it is set).
\<close>

definition startPolling :: "jsstring \<Rightarrow> jsstring option \<Rightarrow> page \<Rightarrow> page" where
  "startPolling teacherId lastTime s =
     s\<lparr>pollers := pollers s @
         [\<lparr>teacher = teacherId, since = or_default lastTime [], active = True, delay = 3000\<rparr>],
       pollInterval := Some (length (pollers s))\<rparr>"

text \<open>
  The request a closure builds from its current cursor: the \<open>since\<close> parameter is left
  out when the cursor is the empty string.
\<close>

definition poll_url :: "poller \<Rightarrow> request" where
  "poll_url p = PollMessages (teacher p) (if since p = [] then None else Some (since p))"

text \<open>
  The interval callback up to its first \<open>await\<close>: the poll request is issued. A timer id
  without a closure has no callback.
\<close>

definition poll_request :: "nat \<Rightarrow> page \<Rightarrow> page" where
  "poll_request tid s =
     (if tid < length (pollers s) then s\<lparr>requests := requests s @ [poll_url (pollers s ! tid)]\<rparr>
      else s)"

text \<open>
  The body of the \<open>forEach\<close> over the returned messages, for the closure \<open>tid\<close>. The
  callback \<open>window.onNewMessageReceived\<close> is code of the page that uses the chat: the model
  records each call and takes the callback to return.
\<close>

definition receive :: "nat \<Rightarrow> message \<Rightarrow> page \<Rightarrow> page" where
  "receive tid msg s =
     (let s1 = (if \<not> from_student msg then
                  (let s' = addMessage (msg_text msg) False (Some (timestamp msg)) s in
                   if onNewMessageReceived s'
                   then s'\<lparr>notified := notified s' @ [(msg_text msg, teacher (pollers s' ! tid))]\<rparr>
                   else s')
                else s)
      in s1\<lparr>pollers := (pollers s1)[tid := (pollers s1 ! tid)\<lparr>since := timestamp msg\<rparr>]\<rparr>)"

text \<open>\<open>data.messages.forEach\<close>: the body, message after message in array order.\<close>

definition receive_all :: "nat \<Rightarrow> message list \<Rightarrow> page \<Rightarrow> page" where
  "receive_all tid ms s = foldl (\<lambda>st m. receive tid m st) s ms"

definition console_error :: "page \<Rightarrow> page" where
  "console_error s = s\<lparr>console_errors := Suc (console_errors s)\<rparr>"

text \<open>
  The rest of the interval callback, once the request has settled: a rejected request, a
  body that is not JSON and a \<open>null\<close> body end in the \<open>catch\<close> block; a missing or
  empty \<open>messages\<close> array does nothing; a non-empty one removes the empty-state element
  and is walked.
\<close>

definition poll_response :: "nat \<Rightarrow> poll_data fetched \<Rightarrow> page \<Rightarrow> page" where
  "poll_response tid resp s =
     (if tid < length (pollers s) then
        (case resp of
           JsonObj d \<Rightarrow>
             (case messages d of
                None \<Rightarrow> s
              | Some ms \<Rightarrow>
                  if length ms > 0 then receive_all tid ms (s\<lparr>empty_state := False\<rparr>)
                  else s)
         | _ \<Rightarrow> console_error s)
      else s)"

text \<open>One poll tick run to completion: the request, then the handling of its outcome.\<close>

definition pollTick :: "nat \<Rightarrow> poll_data fetched \<Rightarrow> page \<Rightarrow> page" where
  "pollTick tid resp s = poll_response tid resp (poll_request tid s)"

definition stopPolling :: "page \<Rightarrow> page" where
  "stopPolling s =
     (case pollInterval s of
        None \<Rightarrow> s
      | Some h \<Rightarrow>
          s\<lparr>pollers := (if h < length (pollers s)
                         then (pollers s)[h := (pollers s ! h)\<lparr>active := False\<rparr>]
                         else pollers s),
            pollInterval := None\<rparr>)"

definition initChat :: "jsstring \<Rightarrow> jsstring option \<Rightarrow> page \<Rightarrow> page" where
  "initChat teacherId lastTime s =
     (if \<not> message_form s \<or> container s = None then s
      else startPolling teacherId lastTime
             (s\<lparr>submit_listeners := submit_listeners s @ [teacherId]\<rparr>))"

section \<open>Chat: events of the page\<close>

text \<open>
  What happens on the page, one event at a time. An interval fires only while it is
  registered; a request settles some time after it was issued, so other events may come
  in between. A submit event runs every registered submit listener up to its request.
\<close>

datatype event =
  InitChat jsstring "jsstring option"
| IntervalFires nat
| PollSettles nat "poll_data fetched"
| SubmitForm
| SendSettles jsstring "send_data fetched"
| TypeInput jsstring
| SetCallback bool
| StopPolling

fun step :: "event \<Rightarrow> page \<Rightarrow> page" where
  "step (InitChat teacherId lastTime) s = initChat teacherId lastTime s"
| "step (IntervalFires tid) s =
     (if tid < length (pollers s) \<and> active (pollers s ! tid) then poll_request tid s else s)"
| "step (PollSettles tid resp) s = poll_response tid resp s"
| "step SubmitForm s = foldl (\<lambda>st t. fst (submit_request t st)) s (submit_listeners s)"
| "step (SendSettles message resp) s = submit_response message resp s"
| "step (TypeInput v) s =
     (case message_input s of None \<Rightarrow> s | Some _ \<Rightarrow> s\<lparr>message_input := Some v\<rparr>)"
| "step (SetCallback b) s = s\<lparr>onNewMessageReceived := b\<rparr>"
| "step StopPolling s = stopPolling s"

definition run :: "event list \<Rightarrow> page \<Rightarrow> page" where
  "run evs s = foldl (\<lambda>st e. step e st) s evs"

fun is_init :: "event \<Rightarrow> bool" where
  "is_init (InitChat _ _) = True"
| "is_init _ = False"

fun is_poll :: "request \<Rightarrow> bool" where
  "is_poll (PollMessages _ _) = True"
| "is_poll (SendMessage _ _) = False"

definition poll_requests :: "page \<Rightarrow> request list" where
  "poll_requests s = filter is_poll (requests s)"

text \<open>Idle: no interval is registered.\<close>

definition idle :: "page \<Rightarrow> bool" where
  "idle s = list_all (\<lambda>p. \<not> active p) (pollers s)"

text \<open>Every registered interval is the one \<open>pollInterval\<close> holds.\<close>

definition handle_owns :: "page \<Rightarrow> bool" where
  "handle_owns s \<longleftrightarrow>
     (\<forall>i < length (pollers s). active (pollers s ! i) \<longrightarrow> pollInterval s = Some i)"

section \<open>Chat: what the transcript shows\<close>

definition from_teacher :: "message list \<Rightarrow> message list" where
  "from_teacher ms = filter (\<lambda>m. \<not> from_student m) ms"

definition received_bubble :: "message \<Rightarrow> bubble" where
  "received_bubble m =
     \<lparr>className = ''message received'', message_content = escapeHtml (msg_text m),
      message_time = formatTimeSGT (Some (timestamp m))\<rparr>"

definition sent_bubble :: "jsstring \<Rightarrow> bubble" where
  "sent_bubble txt =
     \<lparr>className = ''message sent'', message_content = escapeHtml txt, message_time = Now\<rparr>"

text \<open>
  A send has failed when the request was rejected, the body was not a JSON object, or
  the object's \<open>success\<close> flag is false.
\<close>

definition send_failed :: "send_data fetched \<Rightarrow> bool" where
  "send_failed resp = (case resp of JsonObj d \<Rightarrow> \<not> success d | _ \<Rightarrow> True)"

text \<open>
  A chat page as the server renders it before any script runs, and the same page after
  \<open>initChat('7')\<close>.
\<close>

definition chat_page :: page where
  "chat_page =
     \<lparr>message_form = True, container = Some [], message_input = Some [], empty_state = True,
      toast_el = True, toasts = [], requests = [], pollers = [], pollInterval = None,
      onNewMessageReceived = False, notified = [], console_errors = 0, submit_listeners = []\<rparr>"

definition polling_page :: page where
  "polling_page = initChat (js ''7'') None chat_page"

section \<open>Drawing canvas: data\<close>

text \<open>
  A pixel as \<open>ImageData\<close> holds it, four bytes R, G, B, A; the bitmap of a canvas gives
  the pixel at column \<open>x\<close> and row \<open>y\<close>. The bitmap is taken to store exactly these bytes.
\<close>

type_synonym rgba = "8 word \<times> 8 word \<times> 8 word \<times> 8 word"
type_synonym pixels = "nat \<Rightarrow> nat \<Rightarrow> rgba"

definition transparent_black :: rgba where
  "transparent_black = (0, 0, 0, 0)"

definition white :: rgba where
  "white = (255, 255, 255, 255)"

text \<open>
  A point in canvas pixel space, a bounding client rectangle in screen space, and one
  \<open>stroke()\<close> call: the line from \<open>moveTo\<close> to \<open>lineTo\<close> with the context's line
  width and stroke style at the time of the call. JavaScript numbers are modelled as reals.
\<close>

record point =
  pt_x :: real
  pt_y :: real

record rect =
  rect_left :: real
  rect_top :: real
  rect_width :: real
  rect_height :: real

record segment =
  seg_from :: point
  seg_to :: point
  seg_width :: real
  seg_style :: string

record ImageData =
  img_width :: nat
  img_height :: nat
  img_data :: pixels

text \<open>
  A mouse event and one entry of \<open>event.touches\<close>. \<open>Touch.force\<close> is a number, 0 when
  the device reports no force, and \<open>if (force)\<close> takes 0 as absent.
\<close>

record mouse_event =
  clientX :: real
  clientY :: real

record touch =
  touch_clientX :: real
  touch_clientY :: real
  force :: real

datatype dom_error = IndexSizeError | TypeError

text \<open>
  The \<open>DrawingCanvas\<close> object with its canvas element and 2D context: the backing size
  and bitmap, the element's on-screen rectangle, the browser's rasteriser for a stroke
  (a parameter of the model), the context state the class sets, \<open>this.options\<close>,
  \<open>isDrawing\<close> and \<open>lastPoint\<close>, and the strokes issued so far.
\<close>

record DrawingCanvas =
  canvas_width :: nat
  canvas_height :: nat
  bitmap :: pixels
  canvas_rect :: rect
  renderer :: "segment \<Rightarrow> pixels \<Rightarrow> pixels"
  lineCap :: string
  lineJoin :: string
  strokeStyle :: string
  fillStyle :: string
  lineWidth :: real
  opt_lineColor :: string
  opt_lineWidth :: real
  isDrawing :: bool
  lastPoint :: "point option"
  strokes :: "segment list"

section \<open>Drawing canvas: the canvas element and its context\<close>

text \<open>
  Assigning \<open>canvas.width\<close> or \<open>canvas.height\<close> clears the bitmap to transparent black
  and resets the context state to its defaults. Assigning \<open>ctx.lineWidth\<close> ignores a value
  that is not positive. A fractional size is truncated to whole pixels.
\<close>

definition reset_context :: "DrawingCanvas \<Rightarrow> DrawingCanvas" where
  "reset_context c =
     c\<lparr>bitmap := (\<lambda>x y. transparent_black), lineCap := ''butt'', lineJoin := ''miter'',
       strokeStyle := ''#000000'', fillStyle := ''#000000'', lineWidth := 1\<rparr>"

definition set_canvas_width :: "nat \<Rightarrow> DrawingCanvas \<Rightarrow> DrawingCanvas" where
  "set_canvas_width w c = reset_context (c\<lparr>canvas_width := w\<rparr>)"

definition set_canvas_height :: "nat \<Rightarrow> DrawingCanvas \<Rightarrow> DrawingCanvas" where
  "set_canvas_height h c = reset_context (c\<lparr>canvas_height := h\<rparr>)"

definition set_ctx_lineWidth :: "real \<Rightarrow> DrawingCanvas \<Rightarrow> DrawingCanvas" where
  "set_ctx_lineWidth v c = (if 0 < v then c\<lparr>lineWidth := v\<rparr> else c)"

definition to_pixels :: "real \<Rightarrow> nat" where
  "to_pixels v = nat \<lfloor>v\<rfloor>"

text \<open>
  \<open>getImageData(0, 0, width, height)\<close> throws on an empty rectangle and otherwise copies
  the bitmap; \<open>putImageData(img, 0, 0)\<close> copies the image's pixels, unscaled, into the part
  of the bitmap they cover.
\<close>

definition ctx_getImageData :: "DrawingCanvas \<Rightarrow> dom_error + ImageData" where
  "ctx_getImageData c =
     (if canvas_width c = 0 \<or> canvas_height c = 0 then Inl IndexSizeError
      else Inr \<lparr>img_width = canvas_width c, img_height = canvas_height c,
                img_data = (\<lambda>x y. if x < canvas_width c \<and> y < canvas_height c
                                    then bitmap c x y else transparent_black)\<rparr>)"

definition putImageData :: "ImageData \<Rightarrow> DrawingCanvas \<Rightarrow> DrawingCanvas" where
  "putImageData img c =
     c\<lparr>bitmap := (\<lambda>x y. if x < min (img_width img) (canvas_width c)
                              \<and> y < min (img_height img) (canvas_height c)
                           then img_data img x y else bitmap c x y)\<rparr>"

section \<open>Drawing canvas: methods\<close>

text \<open>
  \<open>resize\<close> takes the bounding rectangle of the parent element, \<open>None\<close> when the canvas
  has no parent.
\<close>

definition resize :: "rect option \<Rightarrow> DrawingCanvas \<Rightarrow> dom_error + DrawingCanvas" where
  "resize parent c =
     (case parent of
        None \<Rightarrow> Inr c
      | Some r \<Rightarrow>
          (case ctx_getImageData c of
             Inl e \<Rightarrow> Inl e
           | Inr imageData \<Rightarrow>
               (let c1 = set_canvas_width (to_pixels (rect_width r)) c;
                    c2 = set_canvas_height (to_pixels (max 300 (rect_height r))) c1;
                    c3 = c2\<lparr>lineCap := ''round'', lineJoin := ''round'',
                            strokeStyle := opt_lineColor c2\<rparr>;
                    c4 = set_ctx_lineWidth (opt_lineWidth c3) c3
                in Inr (putImageData imageData c4))))"

text \<open>
  Screen coordinates are scaled by backing size over on-screen size; the canvas is taken
  to be laid out, with an on-screen rectangle of positive size.
\<close>

definition getCanvasCoordinates :: "mouse_event \<Rightarrow> DrawingCanvas \<Rightarrow> point" where
  "getCanvasCoordinates ev c =
     (let r = canvas_rect c;
          scaleX = real (canvas_width c) / rect_width r;
          scaleY = real (canvas_height c) / rect_height r
      in \<lparr>pt_x = (clientX ev - rect_left r) * scaleX, pt_y = (clientY ev - rect_top r) * scaleY\<rparr>)"

definition getTouchCoordinates :: "touch \<Rightarrow> DrawingCanvas \<Rightarrow> point" where
  "getTouchCoordinates t c =
     (let r = canvas_rect c;
          scaleX = real (canvas_width c) / rect_width r;
          scaleY = real (canvas_height c) / rect_height r
      in \<lparr>pt_x = (touch_clientX t - rect_left r) * scaleX,
          pt_y = (touch_clientY t - rect_top r) * scaleY\<rparr>)"

definition drawLine :: "point \<Rightarrow> point \<Rightarrow> DrawingCanvas \<Rightarrow> DrawingCanvas" where
  "drawLine from to c =
     (let seg = \<lparr>seg_from = from, seg_to = to, seg_width = lineWidth c,
                 seg_style = strokeStyle c\<rparr>
      in c\<lparr>bitmap := renderer c seg (bitmap c), strokes := strokes c @ [seg]\<rparr>)"

definition startDrawing :: "mouse_event \<Rightarrow> DrawingCanvas \<Rightarrow> DrawingCanvas" where
  "startDrawing ev c = c\<lparr>isDrawing := True, lastPoint := Some (getCanvasCoordinates ev c)\<rparr>"

text \<open>
  The touch handlers act on a single touch only. A reported force sets the context's line
  width; nothing sets it back.
\<close>

definition handleTouchStart :: "touch list \<Rightarrow> DrawingCanvas \<Rightarrow> DrawingCanvas" where
  "handleTouchStart touches c =
     (if length touches = 1 then
        (let t = touches ! 0;
             c1 = c\<lparr>isDrawing := True, lastPoint := Some (getTouchCoordinates t c)\<rparr>
         in if force t \<noteq> 0 then set_ctx_lineWidth (opt_lineWidth c1 * force t * 2) c1 else c1)
      else c)"

text \<open>
  \<open>drawLine\<close> reads \<open>from.x\<close>: with \<open>lastPoint\<close> null the handler throws there and
  stops.
\<close>

definition draw :: "mouse_event \<Rightarrow> DrawingCanvas \<Rightarrow> DrawingCanvas" where
  "draw ev c =
     (if \<not> isDrawing c then c
      else (let currentPoint = getCanvasCoordinates ev c in
            case lastPoint c of
              None \<Rightarrow> c
            | Some from \<Rightarrow> (drawLine from currentPoint c)\<lparr>lastPoint := Some currentPoint\<rparr>))"

definition handleTouchMove :: "touch list \<Rightarrow> DrawingCanvas \<Rightarrow> DrawingCanvas" where
  "handleTouchMove touches c =
     (if \<not> isDrawing c \<or> length touches \<noteq> 1 then c
      else (let t = touches ! 0;
                currentPoint = getTouchCoordinates t c;
                c1 = (if force t \<noteq> 0 then set_ctx_lineWidth (opt_lineWidth c * force t * 2) c
                      else c)
            in case lastPoint c1 of
                 None \<Rightarrow> c1
               | Some from \<Rightarrow> (drawLine from currentPoint c1)\<lparr>lastPoint := Some currentPoint\<rparr>))"

definition stopDrawing :: "DrawingCanvas \<Rightarrow> DrawingCanvas" where
  "stopDrawing c = c\<lparr>isDrawing := False, lastPoint := None\<rparr>"

definition clear :: "DrawingCanvas \<Rightarrow> DrawingCanvas" where
  "clear c =
     c\<lparr>fillStyle := ''#ffffff'',
       bitmap := (\<lambda>x y. if x < canvas_width c \<and> y < canvas_height c then white
                         else bitmap c x y)\<rparr>"

definition setLineColor :: "string \<Rightarrow> DrawingCanvas \<Rightarrow> DrawingCanvas" where
  "setLineColor color c = c\<lparr>opt_lineColor := color, strokeStyle := color\<rparr>"

definition setLineWidth :: "real \<Rightarrow> DrawingCanvas \<Rightarrow> DrawingCanvas" where
  "setLineWidth w c = set_ctx_lineWidth w (c\<lparr>opt_lineWidth := w\<rparr>)"

definition init :: "rect option \<Rightarrow> DrawingCanvas \<Rightarrow> dom_error + DrawingCanvas" where
  "init parent c =
     (case resize parent c of
        Inl e \<Rightarrow> Inl e
      | Inr c1 \<Rightarrow>
          (let c2 = c1\<lparr>lineCap := ''round'', lineJoin := ''round'',
                       strokeStyle := opt_lineColor c1\<rparr>;
               c3 = set_ctx_lineWidth (opt_lineWidth c2) c2
           in Inr (clear c3)))"

text \<open>
  A canvas element as the page creates it (300 by 150, transparent), and the constructor:
  an option given by the caller replaces the default, since the caller's options are
  spread last.
\<close>

definition new_canvas_element :: "rect \<Rightarrow> (segment \<Rightarrow> pixels \<Rightarrow> pixels) \<Rightarrow> DrawingCanvas" where
  "new_canvas_element r rend =
     \<lparr>canvas_width = 300, canvas_height = 150, bitmap = (\<lambda>x y. transparent_black),
      canvas_rect = r, renderer = rend, lineCap = ''butt'', lineJoin = ''miter'',
      strokeStyle = ''#000000'', fillStyle = ''#000000'', lineWidth = 1,
      opt_lineColor = ''#000000'', opt_lineWidth = 1, isDrawing = False, lastPoint = None,
      strokes = []\<rparr>"

definition constructor ::
  "string option \<Rightarrow> real option \<Rightarrow> rect option \<Rightarrow> DrawingCanvas \<Rightarrow> dom_error + DrawingCanvas" where
  "constructor optColor optWidth parent canvas =
     init parent
       (canvas\<lparr>opt_lineColor := (case optColor of None \<Rightarrow> ''#1e293b'' | Some v \<Rightarrow> v),
               opt_lineWidth := (case optWidth of None \<Rightarrow> 3 | Some v \<Rightarrow> v),
               isDrawing := False, lastPoint := None\<rparr>)"

text \<open>
  A pad for the examples: a 400 by 300 parent, a rasteriser that paints the end point of
  each stroke black, and a pencil and a finger touch.
\<close>

definition dot_renderer :: "segment \<Rightarrow> pixels \<Rightarrow> pixels" where
  "dot_renderer seg px =
     (\<lambda>x y. if x = to_pixels (pt_x (seg_to seg)) \<and> y = to_pixels (pt_y (seg_to seg))
            then (0, 0, 0, 255) else px x y)"

definition pad_rect :: rect where
  "pad_rect = \<lparr>rect_left = 0, rect_top = 0, rect_width = 400, rect_height = 300\<rparr>"

definition pad :: DrawingCanvas where
  "pad = (case constructor None None (Some pad_rect) (new_canvas_element pad_rect dot_renderer) of
            Inr c \<Rightarrow> c
          | Inl _ \<Rightarrow> new_canvas_element pad_rect dot_renderer)"

definition pencil :: "real \<Rightarrow> real \<Rightarrow> touch" where
  "pencil x y = \<lparr>touch_clientX = x, touch_clientY = y, force = 1\<rparr>"

definition finger :: "real \<Rightarrow> real \<Rightarrow> touch" where
  "finger x y = \<lparr>touch_clientX = x, touch_clientY = y, force = 0\<rparr>"

text \<open>The pad after one mouse stroke from (10, 10) to (50, 10), and a narrower parent.\<close>

definition stroked_pad :: DrawingCanvas where
  "stroked_pad =
     draw \<lparr>clientX = 50, clientY = 10\<rparr> (startDrawing \<lparr>clientX = 10, clientY = 10\<rparr> pad)"

definition narrow_rect :: rect where
  "narrow_rect = \<lparr>rect_left = 0, rect_top = 0, rect_width = 200.5, rect_height = 100\<rparr>"

text \<open>The pad after its parent has collapsed to zero width.\<close>

definition collapsed_pad :: DrawingCanvas where
  "collapsed_pad =
     (case resize (Some \<lparr>rect_left = 0, rect_top = 0, rect_width = 0, rect_height = 0\<rparr>) pad of
        Inr c \<Rightarrow> c
      | Inl _ \<Rightarrow> pad)"

text \<open>A pencil stroke, lifted, and then a stroke with a finger.\<close>

definition pencil_then_finger :: DrawingCanvas where
  "pencil_then_finger =
     handleTouchMove [finger 60 20] (handleTouchStart [finger 20 20]
       (stopDrawing (handleTouchMove [pencil 50 10] (handleTouchStart [pencil 10 10] pad))))"

section \<open>Service worker: push notifications\<close>

text \<open>
  A JSON value as \<open>JSON.parse\<close> returns it; an object is the list of its properties, each
  key once.
\<close>

datatype json =
  JNull
| JBool bool
| JNum real
| JStr jsstring
| JArr "json list"
| JObj "(jsstring \<times> json) list"

type_synonym properties = "(jsstring \<times> json) list"

text \<open>
  The payload of a push event: its text and, when the text is JSON, the value
  \<open>event.data.json()\<close> returns (\<open>None\<close> when it throws).
\<close>

record push_message =
  payload_text :: jsstring
  payload_json :: "json option"

text \<open>
  One call of \<open>showNotification\<close>: the title and the members of the options, as the
  values the handler passes (\<open>None\<close> for \<open>undefined\<close>).
\<close>

record notification =
  n_title :: "json option"
  n_body :: "json option"
  n_icon :: json
  n_badge :: json
  n_tag :: json
  n_data :: json
  n_vibrate :: "nat list"
  n_requireInteraction :: bool
  n_actions :: json

text \<open>The initial value of the local \<open>data\<close>.\<close>

definition push_defaults :: properties where
  "push_defaults =
     [(js ''title'', JStr (js ''School Portal'')),
      (js ''body'', JStr (js ''You have a new notification'')),
      (js ''icon'', JStr (js ''/static/icons/icon-192.png'')),
      (js ''badge'', JStr (js ''/static/icons/badge-72.png'')),
      (js ''tag'', JStr (js ''school-notification'')),
      (js ''data'', JObj [])]"

text \<open>
  \<open>{ ...data, ...pushData }\<close>: every property of the payload, whatever its value,
  replaces the property of \<open>data\<close>. Spreading \<open>null\<close>, a boolean or a number adds
  nothing; spreading a string or an array adds index keys only, which the handler never
  reads.
\<close>

fun named_fields :: "json \<Rightarrow> properties" where
  "named_fields (JObj fs) = fs"
| "named_fields _ = []"

definition spread :: "properties \<Rightarrow> json \<Rightarrow> jsstring \<Rightarrow> json option" where
  "spread d v = map_of d ++ map_of (named_fields v)"

text \<open>
  \<open>a || b\<close> on a property that may be missing: \<open>undefined\<close>, \<open>null\<close>, \<open>false\<close>,
  0 and the empty string are falsy.
\<close>

fun truthy :: "json \<Rightarrow> bool" where
  "truthy JNull = False"
| "truthy (JBool b) = b"
| "truthy (JNum n) = (n \<noteq> 0)"
| "truthy (JStr s) = (s \<noteq> [])"
| "truthy (JArr _) = True"
| "truthy (JObj _) = True"

definition or_else :: "json option \<Rightarrow> json \<Rightarrow> json" where
  "or_else v d = (case v of None \<Rightarrow> d | Some x \<Rightarrow> if truthy x then x else d)"

definition default_actions :: json where
  "default_actions =
     JArr [JObj [(js ''action'', JStr (js ''view'')), (js ''title'', JStr (js ''View''))],
           JObj [(js ''action'', JStr (js ''dismiss'')), (js ''title'', JStr (js ''Dismiss''))]]"

text \<open>
  The title and options the handler builds. \<open>event.data.json()\<close> throws when the text is
  not JSON, and the \<open>catch\<close> block takes the text as the body. The title and the body
  are passed as they are; the other members go through \<open>||\<close>.
\<close>

definition push_notification :: "push_message option \<Rightarrow> notification" where
  "push_notification event_data =
     (let d = (case event_data of
                 None \<Rightarrow> map_of push_defaults
               | Some m \<Rightarrow>
                   (case payload_json m of
                      Some pushData \<Rightarrow> spread push_defaults pushData
                    | None \<Rightarrow> (map_of push_defaults)(js ''body'' \<mapsto> JStr (payload_text m))))
      in \<lparr>n_title = d (js ''title''),
          n_body = d (js ''body''),
          n_icon = or_else (d (js ''icon'')) (JStr (js ''/static/icons/icon-192.png'')),
          n_badge = or_else (d (js ''badge'')) (JStr (js ''/static/icons/badge-72.png'')),
          n_tag = or_else (d (js ''tag'')) (JStr (js ''school-notification'')),
          n_data = or_else (d (js ''data'')) (JObj []),
          n_vibrate = [100, 50, 100],
          n_requireInteraction = True,
          n_actions = or_else (d (js ''actions'')) default_actions\<rparr>)"

text \<open>The handler, on the list of \<open>showNotification\<close> calls made so far.\<close>

definition on_push :: "push_message option \<Rightarrow> notification list \<Rightarrow> notification list" where
  "on_push event_data shown = shown @ [push_notification event_data]"

definition default_notification :: notification where
  "default_notification =
     \<lparr>n_title = Some (JStr (js ''School Portal'')),
      n_body = Some (JStr (js ''You have a new notification'')),
      n_icon = JStr (js ''/static/icons/icon-192.png''),
      n_badge = JStr (js ''/static/icons/badge-72.png''),
      n_tag = JStr (js ''school-notification''), n_data = JObj [], n_vibrate = [100, 50, 100],
      n_requireInteraction = True, n_actions = default_actions\<rparr>"

text \<open>
  The property \<open>k\<close> of a parsed payload, and the same with a default for a property the
  payload does not have.
\<close>

definition payload_property :: "json \<Rightarrow> string \<Rightarrow> json option" where
  "payload_property v k = map_of (named_fields v) (js k)"

definition payload_property_or :: "json \<Rightarrow> string \<Rightarrow> json \<Rightarrow> json option" where
  "payload_property_or v k d =
     (case payload_property v k of None \<Rightarrow> Some d | Some x \<Rightarrow> Some x)"

text \<open>The payloads \<open>{"tag":""}\<close> and \<open>{"title":null}\<close>.\<close>

definition empty_tag_push :: push_message where
  "empty_tag_push =
     \<lparr>payload_text = [0x7B, 0x22, 0x74, 0x61, 0x67, 0x22, 0x3A, 0x22, 0x22, 0x7D],
      payload_json = Some (JObj [(js ''tag'', JStr [])])\<rparr>"

definition null_title_push :: push_message where
  "null_title_push =
     \<lparr>payload_text = [0x7B, 0x22, 0x74, 0x69, 0x74, 0x6C, 0x65, 0x22, 0x3A,
                      0x6E, 0x75, 0x6C, 0x6C, 0x7D],
      payload_json = Some (JObj [(js ''title'', JNull)])\<rparr>"

section \<open>Chat: how a poll response is walked\<close>

lemma receive_all_snoc: "receive_all tid (ms @ [m]) s = receive tid m (receive_all tid ms s)"
  by (simp add: receive_all_def)

lemma receive_all_Nil: "receive_all tid [] s = s"
  by (simp add: receive_all_def)

lemma receive_frame:
  "toasts (receive tid m s) = toasts s"
  "requests (receive tid m s) = requests s"
  "message_input (receive tid m s) = message_input s"
  "pollInterval (receive tid m s) = pollInterval s"
  "console_errors (receive tid m s) = console_errors s"
  "onNewMessageReceived (receive tid m s) = onNewMessageReceived s"
  "submit_listeners (receive tid m s) = submit_listeners s"
  "empty_state (receive tid m s) = empty_state s"
  "toast_el (receive tid m s) = toast_el s"
  "message_form (receive tid m s) = message_form s"
  by (simp_all add: receive_def addMessage_def Let_def split: option.splits)

lemma receive_pollers:
  "pollers (receive tid m s) = (pollers s)[tid := (pollers s ! tid)\<lparr>since := timestamp m\<rparr>]"
  by (simp add: receive_def addMessage_def Let_def split: option.splits)

lemma receive_container:
  "container (receive tid m s) =
     map_option (\<lambda>bs. bs @ map received_bubble (from_teacher [m])) (container s)"
  by (simp add: receive_def addMessage_def Let_def received_bubble_def from_teacher_def split: option.splits)

lemma receive_notified:
  "notified (receive tid m s) =
     notified s @
       (if onNewMessageReceived s
        then map (\<lambda>m. (msg_text m, teacher (pollers s ! tid))) (from_teacher [m])
        else [])"
  by (simp add: receive_def addMessage_def Let_def from_teacher_def split: option.splits)

lemma receive_all_frame:
  "toasts (receive_all tid ms s) = toasts s"
  "requests (receive_all tid ms s) = requests s"
  "message_input (receive_all tid ms s) = message_input s"
  "pollInterval (receive_all tid ms s) = pollInterval s"
  "console_errors (receive_all tid ms s) = console_errors s"
  "onNewMessageReceived (receive_all tid ms s) = onNewMessageReceived s"
  "submit_listeners (receive_all tid ms s) = submit_listeners s"
  "empty_state (receive_all tid ms s) = empty_state s"
  "toast_el (receive_all tid ms s) = toast_el s"
  "message_form (receive_all tid ms s) = message_form s"
  by (induction ms rule: rev_induct; simp add: receive_all_Nil receive_all_snoc receive_frame)+

lemma receive_all_length: "length (pollers (receive_all tid ms s)) = length (pollers s)"
  by (induction ms rule: rev_induct) (simp_all add: receive_all_Nil receive_all_snoc receive_pollers)

lemma receive_all_teacher:
  "tid < length (pollers s) \<Longrightarrow>
   teacher (pollers (receive_all tid ms s) ! tid) = teacher (pollers s ! tid)"
  by (induction ms rule: rev_induct)
     (simp_all add: receive_all_Nil receive_all_snoc receive_pollers receive_all_length)

lemma receive_all_pollers:
  "ms \<noteq> [] \<Longrightarrow> tid < length (pollers s) \<Longrightarrow>
   pollers (receive_all tid ms s) = (pollers s)[tid := (pollers s ! tid)\<lparr>since := timestamp (last ms)\<rparr>]"
proof (induction ms rule: rev_induct)
  case Nil
  then show ?case by simp
next
  case (snoc m ms)
  show ?case
  proof (cases "ms = []")
    case True
    then show ?thesis by (simp add: receive_all_def receive_pollers)
  next
    case False
    with snoc have IH: "pollers (receive_all tid ms s) =
        (pollers s)[tid := (pollers s ! tid)\<lparr>since := timestamp (last ms)\<rparr>]" by simp
    from snoc.prems show ?thesis by (simp add: receive_all_snoc receive_pollers IH)
  qed
qed

lemma receive_all_container:
  "container (receive_all tid ms s) =
     map_option (\<lambda>bs. bs @ map received_bubble (from_teacher ms)) (container s)"
proof (induction ms rule: rev_induct)
  case Nil
  show ?case by (simp add: receive_all_Nil from_teacher_def option.map_ident)
next
  case (snoc m ms)
  show ?case
    by (cases "container s") (simp_all add: receive_all_snoc receive_container snoc from_teacher_def)
qed

lemma receive_all_notified:
  "tid < length (pollers s) \<Longrightarrow>
   notified (receive_all tid ms s) =
     notified s @
       (if onNewMessageReceived s
        then map (\<lambda>m. (msg_text m, teacher (pollers s ! tid))) (from_teacher ms)
        else [])"
proof (induction ms rule: rev_induct)
  case Nil
  show ?case by (simp add: receive_all_Nil from_teacher_def)
next
  case (snoc m ms)
  show ?case
    by (simp add: receive_all_snoc receive_notified snoc receive_all_frame receive_all_teacher
        from_teacher_def)
qed

lemma map_active_since: "map active (xs[i := (xs ! i)\<lparr>since := v\<rparr>]) = map active xs"
proof (rule nth_equalityI)
  show "length (map active (xs[i := (xs ! i)\<lparr>since := v\<rparr>])) = length (map active xs)"
    by simp
next
  fix k
  assume "k < length (map active (xs[i := (xs ! i)\<lparr>since := v\<rparr>]))"
  then have k: "k < length xs" by simp
  show "map active (xs[i := (xs ! i)\<lparr>since := v\<rparr>]) ! k = map active xs ! k"
    using k by (cases "i = k") simp_all
qed

lemma receive_all_active: "map active (pollers (receive_all tid ms s)) = map active (pollers s)"
  by (induction ms rule: rev_induct)
     (simp_all add: receive_all_Nil receive_all_snoc receive_pollers map_active_since)

lemma poll_response_active:
  "map active (pollers (poll_response tid resp s)) = map active (pollers s)"
  by (simp add: poll_response_def console_error_def receive_all_active
      split: fetched.splits option.splits)

lemma poll_response_frame:
  "requests (poll_response tid resp s) = requests s"
  "pollInterval (poll_response tid resp s) = pollInterval s"
  by (simp_all add: poll_response_def console_error_def receive_all_frame
      split: fetched.splits option.splits)

lemma submit_response_frame:
  "requests (submit_response m resp s) = requests s"
  "pollInterval (submit_response m resp s) = pollInterval s"
  "pollers (submit_response m resp s) = pollers s"
  by (simp_all add: submit_response_def showToast_def addMessage_def
      split: fetched.splits option.splits)

lemma submit_request_frame:
  "poll_requests (fst (submit_request t s)) = poll_requests s"
  "pollInterval (fst (submit_request t s)) = pollInterval s"
  "pollers (fst (submit_request t s)) = pollers s"
  by (simp_all add: submit_request_def poll_requests_def Let_def split: option.splits)

lemma submit_all_frame:
  "poll_requests (foldl (\<lambda>st t. fst (submit_request t st)) s ts) = poll_requests s
   \<and> pollInterval (foldl (\<lambda>st t. fst (submit_request t st)) s ts) = pollInterval s
   \<and> pollers (foldl (\<lambda>st t. fst (submit_request t st)) s ts) = pollers s"
  by (induction ts rule: rev_induct) (simp_all add: submit_request_frame)

lemma idle_iff: "idle s \<longleftrightarrow> (\<forall>b \<in> set (map active (pollers s)). \<not> b)"
  by (auto simp: idle_def list_all_iff)

lemma handle_owns_iff:
  "handle_owns s \<longleftrightarrow>
     (\<forall>i < length (map active (pollers s)). map active (pollers s) ! i \<longrightarrow> pollInterval s = Some i)"
  by (simp add: handle_owns_def)

lemma idle_handle_owns: "idle s \<Longrightarrow> handle_owns s"
  by (auto simp: idle_def handle_owns_def list_all_length)

lemma initChat_handle_owns: "idle s \<Longrightarrow> handle_owns (initChat t l s)"
  by (auto simp: initChat_def startPolling_def idle_handle_owns idle_def handle_owns_def
      list_all_length nth_append)

lemma stopPolling_idle: "handle_owns s \<Longrightarrow> idle (stopPolling s)"
  by (auto simp: stopPolling_def idle_def handle_owns_def list_all_length nth_list_update
      split: option.splits)

lemma stopPolling_requests: "requests (stopPolling s) = requests s"
  by (simp add: stopPolling_def split: option.splits)

lemma step_handle_owns: "handle_owns s \<Longrightarrow> \<not> is_init e \<Longrightarrow> handle_owns (step e s)"
proof (cases e)
  case (PollSettles tid resp)
  assume "handle_owns s"
  then show ?thesis
    unfolding PollSettles handle_owns_iff
    by (simp only: step.simps poll_response_active poll_response_frame) 
next
  case StopPolling
  assume "handle_owns s"
  then show ?thesis
    using idle_handle_owns [OF stopPolling_idle] by (simp add: StopPolling)
next
  case SubmitForm
  assume "handle_owns s"
  then show ?thesis
    by (simp add: SubmitForm handle_owns_def submit_all_frame)
qed (auto simp: handle_owns_def poll_request_def submit_response_frame Let_def split: option.splits)

lemma step_idle:
  assumes "idle s" and "\<not> is_init e"
  shows "idle (step e s) \<and> poll_requests (step e s) = poll_requests s"
proof (cases e)
  case (PollSettles tid resp)
  from assms(1) show ?thesis
    unfolding PollSettles idle_iff
    by (simp add: poll_response_active poll_response_frame poll_requests_def del: set_map)
next
  case StopPolling
  from assms(1) show ?thesis
    using stopPolling_idle [OF idle_handle_owns]
    by (simp add: StopPolling poll_requests_def stopPolling_requests)
next
  case SubmitForm
  from assms(1) show ?thesis
    by (simp add: SubmitForm idle_def submit_all_frame)
next
  case (IntervalFires tid)
  from assms(1) show ?thesis
    by (auto simp: IntervalFires idle_def list_all_length)
next
  case (InitChat t l)
  with assms(2) show ?thesis by simp
qed (use assms(1) in \<open>auto simp: idle_def poll_requests_def submit_response_frame split: option.splits\<close>)

lemma run_snoc: "run (evs @ [e]) s = step e (run evs s)"
  by (simp add: run_def)

lemma run_handle_owns:
  "handle_owns s \<Longrightarrow> list_all (\<lambda>e. \<not> is_init e) evs \<Longrightarrow> handle_owns (run evs s)"
  by (induction evs rule: rev_induct) (simp_all add: run_snoc step_handle_owns, simp add: run_def)

lemma run_idle:
  "idle s \<Longrightarrow> list_all (\<lambda>e. \<not> is_init e) evs \<Longrightarrow>
   idle (run evs s) \<and> poll_requests (run evs s) = poll_requests s"
proof (induction evs rule: rev_induct)
  case Nil
  then show ?case by (simp add: run_def)
next
  case (snoc e evs)
  then have IH: "idle (run evs s)" "poll_requests (run evs s) = poll_requests s" by simp_all
  from snoc.prems have "\<not> is_init e" by simp
  from step_idle [OF IH(1) this] IH(2) show ?case by (simp add: run_snoc)
qed

lemma poll_request_pollers: "pollers (poll_request tid s) = pollers s"
  by (simp add: poll_request_def Let_def)

lemma poll_request_frame:
  "container (poll_request tid s) = container s"
  "notified (poll_request tid s) = notified s"
  "onNewMessageReceived (poll_request tid s) = onNewMessageReceived s"
  "toasts (poll_request tid s) = toasts s"
  "message_input (poll_request tid s) = message_input s"
  "pollInterval (poll_request tid s) = pollInterval s"
  "console_errors (poll_request tid s) = console_errors s"
  by (simp_all add: poll_request_def Let_def)

lemma pollTick_messages:
  "tid < length (pollers s) \<Longrightarrow> ms \<noteq> [] \<Longrightarrow>
   pollTick tid (JsonObj \<lparr>messages = Some ms\<rparr>) s =
     receive_all tid ms ((poll_request tid s)\<lparr>empty_state := False\<rparr>)"
  by (simp add: pollTick_def poll_response_def poll_request_pollers)

lemma polling_page_simps:
  "pollers polling_page = [\<lparr>teacher = js ''7'', since = [], active = True, delay = 3000\<rparr>]"
  "container polling_page = Some []"
  "notified polling_page = []"
  "onNewMessageReceived polling_page = False"
  by (simp_all add: polling_page_def initChat_def startPolling_def chat_page_def or_default_def)

lemma polling_page_eq:
  "polling_page = chat_page\<lparr>submit_listeners := [js ''7''],
     pollers := [\<lparr>teacher = js ''7'', since = [], active = True, delay = 3000\<rparr>],
     pollInterval := Some 0\<rparr>"
  by (simp add: polling_page_def initChat_def startPolling_def chat_page_def or_default_def)

section \<open>Chat: properties of the poll cycle\<close>

text \<open>
  C1. A poll tick whose response holds a non-empty message list appends, in array order,
  exactly the messages with \<open>from_student\<close> false to the transcript as received bubbles,
  calls the notification callback for each of them when one is registered, and moves the
  cursor to the timestamp of every returned message in turn, whoever wrote it: after the
  first \<open>k\<close> messages the cursor is the timestamp of the \<open>k\<close>-th. The next poll of the
  closure, which the interval starts while it is registered, then asks for the messages
  since the timestamp of the last returned message. The transcript is the
  \<open>#messages-container\<close> element of the page, and the tick is one of an existing closure.
\<close>

theorem poll_tick_renders_counterpart_messages:
  assumes "tid < length (pollers s)" and "ms \<noteq> []" and "container s = Some bs"
  shows "container (pollTick tid (JsonObj \<lparr>messages = Some ms\<rparr>) s)
           = Some (bs @ map received_bubble (from_teacher ms))
       \<and> notified (pollTick tid (JsonObj \<lparr>messages = Some ms\<rparr>) s)
           = notified s @
             (if onNewMessageReceived s
              then map (\<lambda>m. (msg_text m, teacher (pollers s ! tid))) (from_teacher ms)
              else [])
       \<and> (\<forall>k. 0 < k \<and> k \<le> length ms \<longrightarrow>
            since (pollers (pollTick tid (JsonObj \<lparr>messages = Some (take k ms)\<rparr>) s) ! tid)
              = timestamp (ms ! (k - 1)))
       \<and> requests (poll_request tid (pollTick tid (JsonObj \<lparr>messages = Some ms\<rparr>) s))
           = requests (pollTick tid (JsonObj \<lparr>messages = Some ms\<rparr>) s) @
             [PollMessages (teacher (pollers s ! tid))
                (if timestamp (last ms) = [] then None else Some (timestamp (last ms)))]
       \<and> step (IntervalFires tid) (pollTick tid (JsonObj \<lparr>messages = Some ms\<rparr>) s)
           = (if active (pollers s ! tid)
              then poll_request tid (pollTick tid (JsonObj \<lparr>messages = Some ms\<rparr>) s)
              else pollTick tid (JsonObj \<lparr>messages = Some ms\<rparr>) s)"
proof -
  let ?s1 = "(poll_request tid s)\<lparr>empty_state := False\<rparr>"
  let ?t = "pollTick tid (JsonObj \<lparr>messages = Some ms\<rparr>) s"
  have len: "tid < length (pollers ?s1)"
    using assms(1) by (simp add: poll_request_pollers)
  have c: "container (receive_all tid ms ?s1) = Some (bs @ map received_bubble (from_teacher ms))"
    using assms(3) by (simp add: receive_all_container poll_request_frame)
  have n: "notified (receive_all tid ms ?s1) = notified s @
             (if onNewMessageReceived s
              then map (\<lambda>m. (msg_text m, teacher (pollers s ! tid))) (from_teacher ms)
              else [])"
    using receive_all_notified [OF len, of ms]
    by (simp add: poll_request_frame poll_request_pollers)
  have p: "since (pollers (pollTick tid (JsonObj \<lparr>messages = Some (take k ms)\<rparr>) s) ! tid)
              = timestamp (ms ! (k - 1))" if k: "0 < k" "k \<le> length ms" for k
  proof -
    from k assms(2) have ne: "take k ms \<noteq> []" by (cases ms) auto
    have "last (take k ms) = take k ms ! (length (take k ms) - 1)"
      using ne by (rule last_conv_nth)
    also have "length (take k ms) = k" using k by simp
    also have "take k ms ! (k - 1) = ms ! (k - 1)" using k by simp
    finally have l: "last (take k ms) = ms ! (k - 1)" .
    show ?thesis
      using assms(1) len
      by (simp add: pollTick_messages [OF assms(1) ne] receive_all_pollers [OF ne len] l
          poll_request_pollers)
  qed
  have ps: "pollers ?t = (pollers s)[tid := (pollers s ! tid)\<lparr>since := timestamp (last ms)\<rparr>]"
    by (simp add: pollTick_messages [OF assms(1) assms(2)] receive_all_pollers [OF assms(2) len]
        poll_request_pollers)
  have r: "requests (poll_request tid ?t) = requests ?t @
             [PollMessages (teacher (pollers s ! tid))
                (if timestamp (last ms) = [] then None else Some (timestamp (last ms)))]"
    using assms(1) unfolding poll_request_def ps by (simp add: poll_url_def)
  have st: "step (IntervalFires tid) ?t
           = (if active (pollers s ! tid) then poll_request tid ?t else ?t)"
    using assms(1) unfolding step.simps ps by simp
  from c n p r st show ?thesis
    by (simp add: pollTick_messages [OF assms(1) assms(2)])
qed

text \<open>
  The response of two messages, 10:00 from the teacher and 10:01 from the student, on a
  page that has just started polling: one received bubble, the cursor at 10:01, and the
  next poll asking for the messages since 10:01.
\<close>

theorem poll_tick_renders_counterpart_messages_witness:
  "0 < length (pollers polling_page)
   \<and> [\<lparr>msg_text = js ''Hi'', from_student = False, timestamp = js ''10:00''\<rparr>,
       \<lparr>msg_text = js ''Yo'', from_student = True, timestamp = js ''10:01''\<rparr>] \<noteq> []
   \<and> container polling_page = Some []
   \<and> container (pollTick 0 (JsonObj \<lparr>messages = Some
         [\<lparr>msg_text = js ''Hi'', from_student = False, timestamp = js ''10:00''\<rparr>,
          \<lparr>msg_text = js ''Yo'', from_student = True, timestamp = js ''10:01''\<rparr>]\<rparr>) polling_page)
       = Some [\<lparr>className = ''message received'', message_content = js ''Hi'',
                message_time = At (js ''10:00'')\<rparr>]
   \<and> notified (pollTick 0 (JsonObj \<lparr>messages = Some
         [\<lparr>msg_text = js ''Hi'', from_student = False, timestamp = js ''10:00''\<rparr>,
          \<lparr>msg_text = js ''Yo'', from_student = True, timestamp = js ''10:01''\<rparr>]\<rparr>) polling_page)
       = []
   \<and> since (pollers (pollTick 0 (JsonObj \<lparr>messages = Some
         [\<lparr>msg_text = js ''Hi'', from_student = False, timestamp = js ''10:00''\<rparr>,
          \<lparr>msg_text = js ''Yo'', from_student = True, timestamp = js ''10:01''\<rparr>]\<rparr>) polling_page) ! 0)
       = js ''10:01''
   \<and> requests (poll_request 0 (pollTick 0 (JsonObj \<lparr>messages = Some
         [\<lparr>msg_text = js ''Hi'', from_student = False, timestamp = js ''10:00''\<rparr>,
          \<lparr>msg_text = js ''Yo'', from_student = True, timestamp = js ''10:01''\<rparr>]\<rparr>) polling_page))
       = [PollMessages (js ''7'') None, PollMessages (js ''7'') (Some (js ''10:01''))]
   \<and> requests (step (IntervalFires 0) (pollTick 0 (JsonObj \<lparr>messages = Some
         [\<lparr>msg_text = js ''Hi'', from_student = False, timestamp = js ''10:00''\<rparr>,
          \<lparr>msg_text = js ''Yo'', from_student = True, timestamp = js ''10:01''\<rparr>]\<rparr>) polling_page))
       = [PollMessages (js ''7'') None, PollMessages (js ''7'') (Some (js ''10:01''))]"
proof -
  let ?ms = "[\<lparr>msg_text = js ''Hi'', from_student = False, timestamp = js ''10:00''\<rparr>,
       \<lparr>msg_text = js ''Yo'', from_student = True, timestamp = js ''10:01''\<rparr>]"
  let ?t = "pollTick 0 (JsonObj \<lparr>messages = Some ?ms\<rparr>) polling_page"
  have h1: "0 < length (pollers polling_page)" by (simp add: polling_page_simps)
  have h2: "?ms \<noteq> []" by simp
  have h3: "container polling_page = Some []" by (simp add: polling_page_simps)
  note T = poll_tick_renders_counterpart_messages [OF h1 h2 h3]
  from T have c: "container ?t
       = Some [\<lparr>className = ''message received'', message_content = js ''Hi'',
                message_time = At (js ''10:00'')\<rparr>]"
    by (simp add: from_teacher_def received_bubble_def formatTimeSGT_def js_def)
  from T have n: "notified ?t = []"
    by (simp add: polling_page_simps)
  from T have "\<forall>k. 0 < k \<and> k \<le> length ?ms \<longrightarrow>
            since (pollers (pollTick 0 (JsonObj \<lparr>messages = Some (take k ?ms)\<rparr>) polling_page) ! 0)
              = timestamp (?ms ! (k - 1))" by blast
  from this [rule_format, of 2]
  have p: "since (pollers ?t ! 0) = js ''10:01''" by simp
  have ne: "js ''10:01'' \<noteq> []" by (simp add: js_def)
  have "requests ?t = requests (poll_request 0 polling_page)"
    by (simp add: pollTick_messages [OF h1 h2] receive_all_frame)
  also have "\<dots> = [PollMessages (js ''7'') None]"
    by (simp add: poll_request_def poll_url_def polling_page_eq chat_page_def)
  finally have rq: "requests ?t = [PollMessages (js ''7'') None]" .
  from T have "requests (poll_request 0 ?t) = requests ?t @
             [PollMessages (teacher (pollers polling_page ! 0))
                (if timestamp (last ?ms) = [] then None else Some (timestamp (last ?ms)))]"
    by blast
  then have r: "requests (poll_request 0 ?t)
       = [PollMessages (js ''7'') None, PollMessages (js ''7'') (Some (js ''10:01''))]"
    using ne by (simp add: rq polling_page_simps)
  from T have "step (IntervalFires 0) ?t
           = (if active (pollers polling_page ! 0) then poll_request 0 ?t else ?t)"
    by blast
  then have st: "step (IntervalFires 0) ?t = poll_request 0 ?t"
    by (simp add: polling_page_simps)
  from h1 h2 h3 c n p r st show ?thesis by simp
qed

text \<open>
  C4. After a poll tick with a non-empty message list, in whatever order the timestamps
  come, the cursor is the timestamp of the last element of the array.
\<close>

theorem cursor_is_last_timestamp:
  assumes "tid < length (pollers s)" and "ms \<noteq> []"
  shows "since (pollers (pollTick tid (JsonObj \<lparr>messages = Some ms\<rparr>) s) ! tid)
           = timestamp (last ms)"
proof -
  let ?s1 = "(poll_request tid s)\<lparr>empty_state := False\<rparr>"
  have len: "tid < length (pollers ?s1)"
    using assms(1) by (simp add: poll_request_pollers)
  show ?thesis
    using assms(1)
    by (simp add: pollTick_messages [OF assms] receive_all_pollers [OF assms(2) len]
        poll_request_pollers)
qed

text \<open>
  An array out of order, 10:01 before 10:00: the cursor ends at 10:00, the smaller one.
\<close>

theorem cursor_is_last_timestamp_witness:
  "0 < length (pollers polling_page)
   \<and> [\<lparr>msg_text = js ''b'', from_student = False, timestamp = js ''10:01''\<rparr>,
       \<lparr>msg_text = js ''a'', from_student = False, timestamp = js ''10:00''\<rparr>] \<noteq> []
   \<and> since (pollers (pollTick 0 (JsonObj \<lparr>messages = Some
         [\<lparr>msg_text = js ''b'', from_student = False, timestamp = js ''10:01''\<rparr>,
          \<lparr>msg_text = js ''a'', from_student = False, timestamp = js ''10:00''\<rparr>]\<rparr>) polling_page) ! 0)
       = js ''10:00''
   \<and> js ''10:00'' < js ''10:01''"
proof -
  have h1: "0 < length (pollers polling_page)" by (simp add: polling_page_simps)
  have lt: "js ''10:00'' < js ''10:01''" by (simp add: js_def)
  from cursor_is_last_timestamp [OF h1, of
      "[\<lparr>msg_text = js ''b'', from_student = False, timestamp = js ''10:01''\<rparr>,
        \<lparr>msg_text = js ''a'', from_student = False, timestamp = js ''10:00''\<rparr>]"]
  show ?thesis using h1 lt by simp
qed

text \<open>
  C6. A poll tick whose request is rejected or whose body does not parse (or is
  \<open>null\<close>) changes nothing but the request log and the console: no toast, the same
  transcript, the same cursor, the interval still registered with the same delay, and the
  next tick issues the same request again.
\<close>

theorem failed_poll_is_swallowed:
  assumes "tid < length (pollers s)"
    and "resp = Rejected \<or> resp = NotJson \<or> resp = JsonNull"
  shows "pollTick tid resp s
           = s\<lparr>requests := requests s @ [poll_url (pollers s ! tid)],
               console_errors := Suc (console_errors s)\<rparr>
       \<and> toasts (pollTick tid resp s) = toasts s
       \<and> container (pollTick tid resp s) = container s
       \<and> since (pollers (pollTick tid resp s) ! tid) = since (pollers s ! tid)
       \<and> active (pollers (pollTick tid resp s) ! tid) = active (pollers s ! tid)
       \<and> delay (pollers (pollTick tid resp s) ! tid) = delay (pollers s ! tid)
       \<and> requests (poll_request tid (pollTick tid resp s))
           = requests (pollTick tid resp s) @ [poll_url (pollers s ! tid)]"
proof -
  from assms have eq: "pollTick tid resp s
           = s\<lparr>requests := requests s @ [poll_url (pollers s ! tid)],
               console_errors := Suc (console_errors s)\<rparr>"
    by (auto simp: pollTick_def poll_response_def poll_request_def console_error_def)
  show ?thesis
    unfolding eq using assms(1) by (simp add: poll_request_def)
qed

theorem failed_poll_is_swallowed_witness:
  "0 < length (pollers polling_page)
   \<and> toasts (pollTick 0 NotJson polling_page) = []
   \<and> container (pollTick 0 NotJson polling_page) = Some []
   \<and> since (pollers (pollTick 0 NotJson polling_page) ! 0) = []
   \<and> active (pollers (pollTick 0 NotJson polling_page) ! 0)
   \<and> delay (pollers (pollTick 0 NotJson polling_page) ! 0) = 3000
   \<and> requests (pollTick 0 NotJson polling_page) = [PollMessages (js ''7'') None]
   \<and> console_errors (pollTick 0 NotJson polling_page) = 1"
proof -
  have h1: "0 < length (pollers polling_page)" by (simp add: polling_page_simps)
  have h2: "(NotJson :: poll_data fetched) = Rejected \<or> (NotJson :: poll_data fetched) = NotJson
      \<or> (NotJson :: poll_data fetched) = JsonNull" by simp
  from failed_poll_is_swallowed [OF h1 h2] h1 show ?thesis
    by (simp add: polling_page_eq chat_page_def poll_url_def)
qed

text \<open>
  C5. From an idle page, after \<open>initChat\<close> and any further events that do not
  initialise again, \<open>stopPolling\<close> leaves the page idle, and whatever happens next short
  of a new initialisation (intervals that would have fired, requests that settle late,
  submits) adds no poll request.
\<close>

theorem stop_ends_polling:
  assumes "idle s0"
    and "list_all (\<lambda>e. \<not> is_init e) evs1"
    and "list_all (\<lambda>e. \<not> is_init e) evs2"
  shows "idle (run evs2 (stopPolling (run evs1 (initChat teacherId lastTime s0)))) \<and>
         poll_requests (run evs2 (stopPolling (run evs1 (initChat teacherId lastTime s0))))
           = poll_requests (run evs1 (initChat teacherId lastTime s0))"
proof -
  let ?s = "run evs1 (initChat teacherId lastTime s0)"
  have "handle_owns ?s"
    using run_handle_owns [OF initChat_handle_owns [OF assms(1)] assms(2)] .
  then have "idle (stopPolling ?s)" by (rule stopPolling_idle)
  from run_idle [OF this assms(3)] show ?thesis
    by (simp add: poll_requests_def stopPolling_requests)
qed

theorem stop_ends_polling_witness:
  "idle chat_page
   \<and> list_all (\<lambda>e. \<not> is_init e) [IntervalFires 0, TypeInput (js ''hi''), SubmitForm]
   \<and> list_all (\<lambda>e. \<not> is_init e) [IntervalFires 0, PollSettles 0 Rejected, IntervalFires 0]
   \<and> poll_requests (run [IntervalFires 0, PollSettles 0 Rejected, IntervalFires 0]
        (stopPolling (run [IntervalFires 0, TypeInput (js ''hi''), SubmitForm]
          (initChat (js ''7'') None chat_page))))
       = [PollMessages (js ''7'') None]"
proof -
  have h1: "idle chat_page" by (simp add: idle_def chat_page_def)
  have h2: "list_all (\<lambda>e. \<not> is_init e) [IntervalFires 0, TypeInput (js ''hi''), SubmitForm]"
    by simp
  have h3: "list_all (\<lambda>e. \<not> is_init e) [IntervalFires 0, PollSettles 0 Rejected, IntervalFires 0]"
    by simp
  have r: "poll_requests (run [IntervalFires 0, TypeInput (js ''hi''), SubmitForm]
          (initChat (js ''7'') None chat_page)) = [PollMessages (js ''7'') None]"
    by (simp add: run_def initChat_def startPolling_def chat_page_def or_default_def
        poll_request_def poll_url_def submit_request_def trim_def isWhiteSpace_def js_def
        poll_requests_def Let_def)
  from stop_ends_polling [OF h1 h2 h3, of "js ''7''" None] r h1 h2 h3
  show ?thesis by simp
qed

section \<open>Chat: properties of sending\<close>

text \<open>
  C2. On a page with the input and the transcript, a submit whose text is non-empty
  after trimming issues exactly one request, carrying the trimmed text, and on a success
  response appends exactly one sent bubble and clears the input; a submit whose text is
  empty or only white space changes nothing at all.
\<close>

theorem send_renders_once_or_is_noop:
  assumes "message_input s = Some v" and "container s = Some bs"
  shows "(trim v \<noteq> [] \<longrightarrow>
            requests (onSubmit teacherId resp s) = requests s @ [SendMessage teacherId (trim v)]
          \<and> (\<forall>d. resp = JsonObj d \<and> success d \<longrightarrow>
                container (onSubmit teacherId resp s) = Some (bs @ [sent_bubble (trim v)])
              \<and> message_input (onSubmit teacherId resp s) = Some []))
       \<and> (trim v = [] \<longrightarrow> onSubmit teacherId resp s = s)"
  using assms
  by (auto simp: onSubmit_def submit_request_def submit_response_def addMessage_def
      showToast_def sent_bubble_def formatTimeSGT_def Let_def split: fetched.splits)

theorem send_renders_once_or_is_noop_witness:
  "message_input (chat_page\<lparr>message_input := Some (js '' hi '')\<rparr>) = Some (js '' hi '')
   \<and> container (chat_page\<lparr>message_input := Some (js '' hi '')\<rparr>) = Some []
   \<and> trim (js '' hi '') = js ''hi''
   \<and> requests (onSubmit (js ''7'') (JsonObj \<lparr>success = True, error = None\<rparr>)
        (chat_page\<lparr>message_input := Some (js '' hi '')\<rparr>)) = [SendMessage (js ''7'') (js ''hi'')]
   \<and> container (onSubmit (js ''7'') (JsonObj \<lparr>success = True, error = None\<rparr>)
        (chat_page\<lparr>message_input := Some (js '' hi '')\<rparr>))
       = Some [\<lparr>className = ''message sent'', message_content = js ''hi'', message_time = Now\<rparr>]
   \<and> message_input (onSubmit (js ''7'') (JsonObj \<lparr>success = True, error = None\<rparr>)
        (chat_page\<lparr>message_input := Some (js '' hi '')\<rparr>)) = Some []
   \<and> trim (js ''   '') = []
   \<and> onSubmit (js ''7'') (JsonObj \<lparr>success = True, error = None\<rparr>)
        (chat_page\<lparr>message_input := Some (js ''   '')\<rparr>)
       = chat_page\<lparr>message_input := Some (js ''   '')\<rparr>"
proof -
  let ?ok = "JsonObj \<lparr>success = True, error = None\<rparr>"
  let ?s = "chat_page\<lparr>message_input := Some (js '' hi '')\<rparr>"
  let ?b = "chat_page\<lparr>message_input := Some (js ''   '')\<rparr>"
  have t1: "trim (js '' hi '') = js ''hi''" by (simp add: trim_def js_def isWhiteSpace_def)
  have t2: "trim (js ''   '') = []" by (simp add: trim_def js_def isWhiteSpace_def)
  have h1: "message_input ?s = Some (js '' hi '')" by simp
  have h2: "container ?s = Some []" by (simp add: chat_page_def)
  have h3: "message_input ?b = Some (js ''   '')" by simp
  have h4: "container ?b = Some []" by (simp add: chat_page_def)
  have ne: "js ''hi'' \<noteq> []" by (simp add: js_def)
  have sb: "sent_bubble (js ''hi'')
      = \<lparr>className = ''message sent'', message_content = js ''hi'', message_time = Now\<rparr>"
    by (simp add: sent_bubble_def js_def)
  have r0: "requests ?s = []" by (simp add: chat_page_def)
  from send_renders_once_or_is_noop [OF h1 h2, of "js ''7''" ?ok]
  have a: "requests (onSubmit (js ''7'') ?ok ?s) = [SendMessage (js ''7'') (js ''hi'')]
       \<and> container (onSubmit (js ''7'') ?ok ?s) = Some [sent_bubble (js ''hi'')]
       \<and> message_input (onSubmit (js ''7'') ?ok ?s) = Some []"
    unfolding t1 using ne r0 by simp
  from send_renders_once_or_is_noop [OF h3 h4, of "js ''7''" ?ok]
  have b: "onSubmit (js ''7'') ?ok ?b = ?b"
    unfolding t2 by simp
  from a b t1 t2 h1 h2 sb show ?thesis by simp
qed

text \<open>
  C3. A send that fails, by a rejected request, an unreadable body or a response whose
  \<open>success\<close> flag is false, shows one error toast on the page's toast element, leaves the
  input as the user typed it, appends no bubble and issues no request beyond the one that
  failed.
\<close>

theorem failed_send_keeps_input:
  assumes "message_input s = Some v" and "trim v \<noteq> []" and "toast_el s" and "send_failed resp"
  shows "toasts (onSubmit teacherId resp s) = toasts s @
           [\<lparr>toast_title = js ''Error'',
             toast_body = (case resp of
                             JsonObj d \<Rightarrow> or_default (error d) (js ''Failed to send message'')
                           | _ \<Rightarrow> js ''Failed to send message''),
             toast_class = [''toast'', ''bg-danger'', ''text-white'']\<rparr>]
       \<and> message_input (onSubmit teacherId resp s) = Some v
       \<and> container (onSubmit teacherId resp s) = container s
       \<and> requests (onSubmit teacherId resp s) = requests s @ [SendMessage teacherId (trim v)]"
  using assms
  by (auto simp: onSubmit_def submit_request_def submit_response_def send_failed_def
      showToast_def Let_def split: fetched.splits)

theorem failed_send_keeps_input_witness:
  "message_input (chat_page\<lparr>message_input := Some (js '' hi '')\<rparr>) = Some (js '' hi '')
   \<and> trim (js '' hi '') \<noteq> []
   \<and> toast_el (chat_page\<lparr>message_input := Some (js '' hi '')\<rparr>)
   \<and> send_failed (JsonObj \<lparr>success = False, error = Some (js ''Teacher not found'')\<rparr>)
   \<and> toasts (onSubmit (js ''7'') (JsonObj \<lparr>success = False, error = Some (js ''Teacher not found'')\<rparr>)
        (chat_page\<lparr>message_input := Some (js '' hi '')\<rparr>))
       = [\<lparr>toast_title = js ''Error'', toast_body = js ''Teacher not found'',
           toast_class = [''toast'', ''bg-danger'', ''text-white'']\<rparr>]
   \<and> message_input (onSubmit (js ''7'') (JsonObj \<lparr>success = False, error = Some (js ''Teacher not found'')\<rparr>)
        (chat_page\<lparr>message_input := Some (js '' hi '')\<rparr>)) = Some (js '' hi '')
   \<and> container (onSubmit (js ''7'') (JsonObj \<lparr>success = False, error = Some (js ''Teacher not found'')\<rparr>)
        (chat_page\<lparr>message_input := Some (js '' hi '')\<rparr>)) = Some []
   \<and> requests (onSubmit (js ''7'') (JsonObj \<lparr>success = False, error = Some (js ''Teacher not found'')\<rparr>)
        (chat_page\<lparr>message_input := Some (js '' hi '')\<rparr>)) = [SendMessage (js ''7'') (js ''hi'')]"
proof -
  let ?no = "JsonObj \<lparr>success = False, error = Some (js ''Teacher not found'')\<rparr>"
  let ?s = "chat_page\<lparr>message_input := Some (js '' hi '')\<rparr>"
  have t1: "trim (js '' hi '') = js ''hi''" by (simp add: trim_def js_def isWhiteSpace_def)
  have ne: "js ''hi'' \<noteq> []" by (simp add: js_def)
  have h1: "message_input ?s = Some (js '' hi '')" by simp
  have h2: "trim (js '' hi '') \<noteq> []" using t1 ne by simp
  have h3: "toast_el ?s" by (simp add: chat_page_def)
  have h4: "send_failed ?no" by (simp add: send_failed_def)
  have e: "or_default (Some (js ''Teacher not found'')) (js ''Failed to send message'')
      = js ''Teacher not found''" by (simp add: or_default_def js_def)
  have s0: "toasts ?s = []" "container ?s = Some []" "requests ?s = []"
    by (simp_all add: chat_page_def)
  from failed_send_keeps_input [OF h1 h2 h3 h4, of "js ''7''"] h1 h2 h3 h4
  show ?thesis
    unfolding t1 by (simp add: e s0)
qed

section \<open>Chat: escaping of the transcript\<close>

lemma text_only_escapeHtml: "text_only (escapeHtml t)"
  by (induction t) (simp_all add: js_def)

lemma escapeHtml_no_angle: "0x3C \<notin> set (escapeHtml t) \<and> 0x3E \<notin> set (escapeHtml t)"
  by (induction t) (simp_all add: js_def)

text \<open>
  C9. Whatever text \<open>addMessage\<close> appends, sent or received, the markup of the message
  content is the escaped text: it holds no \<open><\<close> and no \<open>>\<close>, and every \<open>&\<close> in it
  starts a character reference.
\<close>

theorem transcript_markup_is_escaped:
  assumes "container s = Some bs"
  shows "\<exists>b. container (addMessage txt isSent ts s) = Some (bs @ [b])
           \<and> message_content b = escapeHtml txt
           \<and> text_only (message_content b)
           \<and> 0x3C \<notin> set (message_content b) \<and> 0x3E \<notin> set (message_content b)"
  using assms text_only_escapeHtml [of "txt"] escapeHtml_no_angle [of "txt"]
  by (simp add: addMessage_def)

theorem transcript_markup_is_escaped_witness:
  "container chat_page = Some []
   \<and> container (addMessage (js ''<b>Tom & Jerry</b>'') False (Some (js ''10:00'')) chat_page)
       = Some [\<lparr>className = ''message received'',
                message_content = js ''&lt;b&gt;Tom &amp; Jerry&lt;/b&gt;'',
                message_time = At (js ''10:00'')\<rparr>]
   \<and> text_only (js ''&lt;b&gt;Tom &amp; Jerry&lt;/b&gt;'')"
proof -
  have h: "container chat_page = Some []" by (simp add: chat_page_def)
  have e: "escapeHtml (js ''<b>Tom & Jerry</b>'') = js ''&lt;b&gt;Tom &amp; Jerry&lt;/b&gt;''"
    by (simp add: js_def)
  have c: "container (addMessage (js ''<b>Tom & Jerry</b>'') False (Some (js ''10:00'')) chat_page)
       = Some [\<lparr>className = ''message received'',
                message_content = js ''&lt;b&gt;Tom &amp; Jerry&lt;/b&gt;'',
                message_time = At (js ''10:00'')\<rparr>]"
    by (simp add: addMessage_def chat_page_def e formatTimeSGT_def) (simp add: js_def)
  from transcript_markup_is_escaped [OF h, of "js ''<b>Tom & Jerry</b>''" False "Some (js ''10:00'')"]
  have "text_only (js ''&lt;b&gt;Tom &amp; Jerry&lt;/b&gt;'')"
    unfolding c by auto
  with h c show ?thesis by simp
qed

section \<open>Drawing canvas: properties\<close>

lemma pad_fields:
  "canvas_width pad = 400" "canvas_height pad = 300" "lineWidth pad = 3" "opt_lineWidth pad = 3"
  "isDrawing pad = False" "strokes pad = []" "canvas_rect pad = pad_rect"
  "strokeStyle pad = ''#1e293b''" "renderer pad = dot_renderer" "lastPoint pad = None"
  by (simp_all add: pad_def constructor_def init_def resize_def ctx_getImageData_def
      putImageData_def set_canvas_width_def set_canvas_height_def reset_context_def
      set_ctx_lineWidth_def clear_def new_canvas_element_def pad_rect_def to_pixels_def Let_def)

lemma pad_bitmap: "x < 400 \<Longrightarrow> y < 300 \<Longrightarrow> bitmap pad x y = white"
  by (simp add: pad_def constructor_def init_def resize_def ctx_getImageData_def
      putImageData_def set_canvas_width_def set_canvas_height_def reset_context_def
      set_ctx_lineWidth_def clear_def new_canvas_element_def pad_rect_def to_pixels_def Let_def)

lemma stroked_pad_fields:
  "canvas_width stroked_pad = 400" "canvas_height stroked_pad = 300"
  "bitmap stroked_pad 50 10 = (0, 0, 0, 255)" "bitmap stroked_pad 49 10 = white"
  by (simp_all add: stroked_pad_def draw_def startDrawing_def drawLine_def
      getCanvasCoordinates_def pad_fields pad_bitmap pad_rect_def dot_renderer_def
      to_pixels_def Let_def)

text \<open>
  C7. A resize of a canvas of positive size returns, with the new size taken from the
  parent, and every pixel inside both the old and the new size keeps its colour; a canvas
  of zero width or height throws before anything is changed.
\<close>

theorem resize_preserves_pixels:
  "(canvas_width c = 0 \<or> canvas_height c = 0 \<longrightarrow> resize (Some r) c = Inl IndexSizeError)
   \<and> (0 < canvas_width c \<and> 0 < canvas_height c \<longrightarrow>
        (\<exists>c'. resize (Some r) c = Inr c'
           \<and> canvas_width c' = to_pixels (rect_width r)
           \<and> canvas_height c' = to_pixels (max 300 (rect_height r))
           \<and> (\<forall>x y. x < min (canvas_width c) (canvas_width c')
                    \<and> y < min (canvas_height c) (canvas_height c')
                  \<longrightarrow> bitmap c' x y = bitmap c x y)))"
  by (simp add: resize_def ctx_getImageData_def putImageData_def set_canvas_width_def
      set_canvas_height_def reset_context_def set_ctx_lineWidth_def Let_def)

text \<open>
  The stroked pad under a narrower parent keeps the black dot at (50, 10) and the white
  pixel beside it; the collapsed pad, zero pixels wide, throws.
\<close>

theorem resize_preserves_pixels_witness:
  "0 < canvas_width stroked_pad \<and> 0 < canvas_height stroked_pad
   \<and> \<not> isl (resize (Some narrow_rect) stroked_pad)
   \<and> canvas_width (projr (resize (Some narrow_rect) stroked_pad)) = 200
   \<and> canvas_height (projr (resize (Some narrow_rect) stroked_pad)) = 300
   \<and> bitmap (projr (resize (Some narrow_rect) stroked_pad)) 50 10 = (0, 0, 0, 255)
   \<and> bitmap (projr (resize (Some narrow_rect) stroked_pad)) 49 10 = white
   \<and> canvas_width collapsed_pad = 0
   \<and> resize (Some narrow_rect) collapsed_pad = Inl IndexSizeError"
proof -
  have pos: "0 < canvas_width stroked_pad \<and> 0 < canvas_height stroked_pad"
    by (simp add: stroked_pad_fields)
  with resize_preserves_pixels [of stroked_pad narrow_rect]
  obtain c' where c': "resize (Some narrow_rect) stroked_pad = Inr c'"
    and w: "canvas_width c' = to_pixels (rect_width narrow_rect)"
    and h: "canvas_height c' = to_pixels (max 300 (rect_height narrow_rect))"
    and px: "\<forall>x y. x < min (canvas_width stroked_pad) (canvas_width c')
                    \<and> y < min (canvas_height stroked_pad) (canvas_height c')
                  \<longrightarrow> bitmap c' x y = bitmap stroked_pad x y"
    by blast
  have w': "canvas_width c' = 200" using w by (simp add: narrow_rect_def to_pixels_def)
  have h': "canvas_height c' = 300" using h by (simp add: narrow_rect_def to_pixels_def)
  have p1: "bitmap c' 50 10 = bitmap stroked_pad 50 10"
    using px [rule_format, of 50 10] by (simp add: w' h' stroked_pad_fields)
  have p2: "bitmap c' 49 10 = bitmap stroked_pad 49 10"
    using px [rule_format, of 49 10] by (simp add: w' h' stroked_pad_fields)
  have z: "canvas_width collapsed_pad = 0"
    by (simp add: collapsed_pad_def resize_def ctx_getImageData_def putImageData_def
        set_canvas_width_def set_canvas_height_def reset_context_def set_ctx_lineWidth_def
        pad_fields to_pixels_def Let_def)
  with resize_preserves_pixels [of collapsed_pad narrow_rect]
  have t: "resize (Some narrow_rect) collapsed_pad = Inl IndexSizeError" by simp
  show ?thesis
    using pos z t by (simp add: c' w' h' p1 p2 stroked_pad_fields)
qed

lemma pencil_down_fields:
  "isDrawing (handleTouchStart [pencil 10 10] pad)"
  "lastPoint (handleTouchStart [pencil 10 10] pad) = Some \<lparr>pt_x = 10, pt_y = 10\<rparr>"
  "opt_lineWidth (handleTouchStart [pencil 10 10] pad) = 3"
  "lineWidth (handleTouchStart [pencil 10 10] pad) = 6"
  "strokes (handleTouchStart [pencil 10 10] pad) = []"
  "strokeStyle (handleTouchStart [pencil 10 10] pad) = ''#1e293b''"
  "canvas_width (handleTouchStart [pencil 10 10] pad) = 400"
  "canvas_height (handleTouchStart [pencil 10 10] pad) = 300"
  "canvas_rect (handleTouchStart [pencil 10 10] pad) = pad_rect"
  by (simp_all add: handleTouchStart_def pencil_def getTouchCoordinates_def pad_fields
      pad_rect_def set_ctx_lineWidth_def Let_def)

lemma touch_fields:
  "touch_clientX (pencil x y) = x" "touch_clientY (pencil x y) = y" "force (pencil x y) = 1"
  "touch_clientX (finger x y) = x" "touch_clientY (finger x y) = y" "force (finger x y) = 0"
  by (simp_all add: pencil_def finger_def)


text \<open>
  C8, as the code has it. A single touch that reports a force, at the start of a stroke
  or during it, assigns base width times force times 2 to the context's line width (the
  canvas takes every positive value), and the segment a move draws has the resulting
  width. The width stays: a touch that reports no force leaves the context's line width as
  it is, and its segment is drawn with that width, whatever set it last.
\<close>

theorem touch_force_sets_width:
  "(force t \<noteq> 0 \<longrightarrow>
      lineWidth (handleTouchStart [t] c)
        = (if 0 < opt_lineWidth c * force t * 2 then opt_lineWidth c * force t * 2
           else lineWidth c)
    \<and> (isDrawing c \<and> lastPoint c = Some p \<longrightarrow>
         strokes (handleTouchMove [t] c) = strokes c @
           [\<lparr>seg_from = p, seg_to = getTouchCoordinates t c,
             seg_width = (if 0 < opt_lineWidth c * force t * 2 then opt_lineWidth c * force t * 2
                          else lineWidth c),
             seg_style = strokeStyle c\<rparr>]
       \<and> lineWidth (handleTouchMove [t] c)
           = (if 0 < opt_lineWidth c * force t * 2 then opt_lineWidth c * force t * 2
              else lineWidth c)))
   \<and> (force u = 0 \<longrightarrow>
      lineWidth (handleTouchStart [u] c) = lineWidth c
    \<and> (isDrawing c \<and> lastPoint c = Some p \<longrightarrow>
         strokes (handleTouchMove [u] c) = strokes c @
           [\<lparr>seg_from = p, seg_to = getTouchCoordinates u c,
             seg_width = lineWidth c, seg_style = strokeStyle c\<rparr>]
       \<and> lineWidth (handleTouchMove [u] c) = lineWidth c))
   \<and> isDrawing (handleTouchStart [t] c)
   \<and> lastPoint (handleTouchStart [t] c) = Some (getTouchCoordinates t c)
   \<and> opt_lineWidth (handleTouchStart [t] c) = opt_lineWidth c
   \<and> strokes (handleTouchStart [t] c) = strokes c"
  by (simp add: handleTouchStart_def handleTouchMove_def set_ctx_lineWidth_def drawLine_def
      Let_def)

theorem touch_force_sets_width_witness:
  "\<not> isDrawing pad \<and> lastPoint pad = None \<and> opt_lineWidth pad = 3 \<and> lineWidth pad = 3
   \<and> force (pencil 10 10) \<noteq> 0 \<and> force (pencil 50 10) \<noteq> 0 \<and> force (finger 50 10) = 0
   \<and> lineWidth (handleTouchStart [pencil 10 10] pad) = 6
   \<and> lineWidth (handleTouchStart [finger 50 10] pad) = 3
   \<and> isDrawing (handleTouchStart [pencil 10 10] pad)
   \<and> lastPoint (handleTouchStart [pencil 10 10] pad) = Some \<lparr>pt_x = 10, pt_y = 10\<rparr>
   \<and> strokes (handleTouchMove [pencil 50 10] (handleTouchStart [pencil 10 10] pad))
       = [\<lparr>seg_from = \<lparr>pt_x = 10, pt_y = 10\<rparr>, seg_to = \<lparr>pt_x = 50, pt_y = 10\<rparr>,
           seg_width = 6, seg_style = ''#1e293b''\<rparr>]
   \<and> strokes (handleTouchMove [finger 50 10] (handleTouchStart [pencil 10 10] pad))
       = [\<lparr>seg_from = \<lparr>pt_x = 10, pt_y = 10\<rparr>, seg_to = \<lparr>pt_x = 50, pt_y = 10\<rparr>,
           seg_width = 6, seg_style = ''#1e293b''\<rparr>]"
proof -
  let ?c = "handleTouchStart [pencil 10 10] pad"
  have f: "force (pencil 10 10) \<noteq> 0" "force (pencil 50 10) \<noteq> 0" "force (finger 50 10) = 0"
    by (simp_all add: touch_fields)
  have g0: "getTouchCoordinates (pencil 10 10) pad = \<lparr>pt_x = 10, pt_y = 10\<rparr>"
    by (simp add: getTouchCoordinates_def pad_fields pad_rect_def touch_fields Let_def)
  from touch_force_sets_width [of "pencil 10 10" pad "\<lparr>pt_x = 0, pt_y = 0\<rparr>" "finger 50 10"] f
  have b: "lineWidth ?c = 6" "lineWidth (handleTouchStart [finger 50 10] pad) = 3"
    "isDrawing ?c" "lastPoint ?c = Some \<lparr>pt_x = 10, pt_y = 10\<rparr>"
    "opt_lineWidth ?c = 3" "strokes ?c = []"
    by (simp_all add: pad_fields touch_fields g0)
  have g: "getTouchCoordinates (pencil 50 10) ?c = \<lparr>pt_x = 50, pt_y = 10\<rparr>"
    "getTouchCoordinates (finger 50 10) ?c = \<lparr>pt_x = 50, pt_y = 10\<rparr>"
    by (simp_all add: getTouchCoordinates_def pencil_down_fields pad_rect_def touch_fields
        Let_def)
  from touch_force_sets_width [of "pencil 50 10" ?c "\<lparr>pt_x = 10, pt_y = 10\<rparr>" "finger 50 10"] f b
  have m: "strokes (handleTouchMove [pencil 50 10] ?c)
       = [\<lparr>seg_from = \<lparr>pt_x = 10, pt_y = 10\<rparr>, seg_to = \<lparr>pt_x = 50, pt_y = 10\<rparr>,
           seg_width = 6, seg_style = ''#1e293b''\<rparr>]"
    "strokes (handleTouchMove [finger 50 10] ?c)
       = [\<lparr>seg_from = \<lparr>pt_x = 10, pt_y = 10\<rparr>, seg_to = \<lparr>pt_x = 50, pt_y = 10\<rparr>,
           seg_width = 6, seg_style = ''#1e293b''\<rparr>]"
    by (simp_all add: g touch_fields pencil_down_fields)
  show ?thesis
    using f b m by (simp add: pad_fields)
qed

text \<open>
  C8 as stated fails: after a pencil stroke at full force, lifted, a finger stroke that
  reports no force is drawn 6 wide, and the base width is 3.
\<close>

theorem no_force_keeps_last_width_counterexample:
  "force (finger 20 20) = 0 \<and> force (finger 60 20) = 0
   \<and> opt_lineWidth pencil_then_finger = 3
   \<and> map seg_width (strokes pencil_then_finger) = [6, 6]"
  by (simp add: pencil_then_finger_def handleTouchMove_def handleTouchStart_def stopDrawing_def
      drawLine_def set_ctx_lineWidth_def getTouchCoordinates_def pencil_def finger_def
      pad_fields Let_def)

section \<open>Service worker: properties\<close>

lemma js_nonempty: "js (c # cs) \<noteq> []"
  by (simp add: js_def)

lemma defaults_lookup:
  "map_of push_defaults (js ''title'') = Some (JStr (js ''School Portal''))"
  "map_of push_defaults (js ''body'') = Some (JStr (js ''You have a new notification''))"
  "map_of push_defaults (js ''icon'') = Some (JStr (js ''/static/icons/icon-192.png''))"
  "map_of push_defaults (js ''badge'') = Some (JStr (js ''/static/icons/badge-72.png''))"
  "map_of push_defaults (js ''tag'') = Some (JStr (js ''school-notification''))"
  "map_of push_defaults (js ''data'') = Some (JObj [])"
  "map_of push_defaults (js ''actions'') = None"
  by (simp_all add: push_defaults_def js_def)

lemma spread_lookup:
  "spread push_defaults v (js k) =
     (case payload_property v k of None \<Rightarrow> map_of push_defaults (js k) | Some x \<Rightarrow> Some x)"
  by (simp add: spread_def payload_property_def map_add_def)

lemma or_else_default: "truthy d \<Longrightarrow> or_else (Some d) d = d"
  by (simp add: or_else_def)

lemma or_else_merged:
  "or_else (case w of None \<Rightarrow> Some d | Some x \<Rightarrow> Some x) d = or_else w d"
  by (cases w) (simp_all add: or_else_def)

lemma or_else_merged_none:
  "or_else (case w of None \<Rightarrow> None | Some x \<Rightarrow> Some x) d = or_else w d"
  by (cases w) (simp_all add: or_else_def)

lemma push_notification_none: "push_notification None = default_notification"
  by (simp add: push_notification_def default_notification_def defaults_lookup
      or_else_def js_nonempty)

lemma push_notification_text:
  "push_notification (Some \<lparr>payload_text = t, payload_json = None\<rparr>)
     = default_notification\<lparr>n_body := Some (JStr t)\<rparr>"
proof -
  have b: "js ''body'' \<noteq> js ''title''" "js ''body'' \<noteq> js ''icon''" "js ''body'' \<noteq> js ''badge''"
    "js ''body'' \<noteq> js ''tag''" "js ''body'' \<noteq> js ''data''" "js ''body'' \<noteq> js ''actions''"
    by (simp_all add: js_def)
  show ?thesis
    using b
    by (simp add: push_notification_def default_notification_def defaults_lookup
      or_else_def js_nonempty fun_upd_def)
qed

lemma push_notification_json:
  "push_notification (Some \<lparr>payload_text = t, payload_json = Some v\<rparr>)
     = \<lparr>n_title = payload_property_or v ''title'' (JStr (js ''School Portal'')),
        n_body = payload_property_or v ''body'' (JStr (js ''You have a new notification'')),
        n_icon = or_else (payload_property v ''icon'') (JStr (js ''/static/icons/icon-192.png'')),
        n_badge = or_else (payload_property v ''badge'') (JStr (js ''/static/icons/badge-72.png'')),
        n_tag = or_else (payload_property v ''tag'') (JStr (js ''school-notification'')),
        n_data = or_else (payload_property v ''data'') (JObj []),
        n_vibrate = [100, 50, 100],
        n_requireInteraction = True,
        n_actions = or_else (payload_property v ''actions'') default_actions\<rparr>"
  by (simp add: push_notification_def spread_lookup defaults_lookup or_else_merged
      or_else_merged_none payload_property_or_def cong: option.case_cong)

text \<open>
  C10, as the code has it. Every push event makes exactly one call of \<open>showNotification\<close>.
  Without a payload the notification is the default one; with a payload that is not JSON
  it is the default one with the payload text as body; with a JSON payload a title or body
  property of the payload replaces the default whatever its value, \<open>null\<close> included, and
  an icon, badge, tag, data or actions property replaces the default when its value is
  truthy, the default being used otherwise.
\<close>

theorem push_always_notifies:
  "length (on_push event_data shown) = Suc (length shown)
   \<and> take (length shown) (on_push event_data shown) = shown
   \<and> on_push None shown = shown @ [default_notification]
   \<and> on_push (Some \<lparr>payload_text = t, payload_json = None\<rparr>) shown
       = shown @ [default_notification\<lparr>n_body := Some (JStr t)\<rparr>]
   \<and> on_push (Some \<lparr>payload_text = t, payload_json = Some v\<rparr>) shown
       = shown @
         [\<lparr>n_title = payload_property_or v ''title'' (JStr (js ''School Portal'')),
           n_body = payload_property_or v ''body'' (JStr (js ''You have a new notification'')),
           n_icon = or_else (payload_property v ''icon'') (JStr (js ''/static/icons/icon-192.png'')),
           n_badge = or_else (payload_property v ''badge'') (JStr (js ''/static/icons/badge-72.png'')),
           n_tag = or_else (payload_property v ''tag'') (JStr (js ''school-notification'')),
           n_data = or_else (payload_property v ''data'') (JObj []),
           n_vibrate = [100, 50, 100],
           n_requireInteraction = True,
           n_actions = or_else (payload_property v ''actions'') default_actions\<rparr>]"
  unfolding on_push_def push_notification_none push_notification_text push_notification_json
  by simp

theorem push_always_notifies_witness:
  "on_push (Some \<lparr>payload_text = js ''hello'', payload_json = None\<rparr>) []
     = [default_notification\<lparr>n_body := Some (JStr (js ''hello''))\<rparr>]
   \<and> map n_title (on_push (Some \<lparr>payload_text = js ''hello'', payload_json = None\<rparr>) [])
     = [Some (JStr (js ''School Portal''))]
   \<and> map n_title (on_push (Some null_title_push) []) = [Some JNull]
   \<and> map n_body (on_push (Some null_title_push) [])
     = [Some (JStr (js ''You have a new notification''))]
   \<and> map n_tag (on_push (Some null_title_push) []) = [JStr (js ''school-notification'')]"
  using push_always_notifies [of None "[]" "js ''hello''" JNull]
    push_always_notifies [of None "[]" "payload_text null_title_push"
      "JObj [(js ''title'', JNull)]"]
  by (simp add: default_notification_def null_title_push_def payload_property_or_def payload_property_def
      or_else_def js_def)

text \<open>
  C10 as stated fails: the payload \<open>{"tag":""}\<close> is JSON and has a tag, and the
  notification is shown with the default tag.
\<close>

theorem empty_tag_falls_back_counterexample:
  "payload_json empty_tag_push = Some (JObj [(js ''tag'', JStr [])])
   \<and> map n_tag (on_push (Some empty_tag_push) []) = [JStr (js ''school-notification'')]"
  by (simp add: empty_tag_push_def on_push_def push_notification_def spread_def
      push_defaults_def or_else_def map_add_def js_def)

end
